theory Spec2Isabelle
  imports Main
begin

section \<open>Errors and HTTP responses\<close>

text \<open>
  The classes of \<^verbatim>\<open>lib/utils/errors.ts\<close> that the modelled code raises, together with the
  built-in JavaScript errors. A thrown value is an error object (class, message, context)
  or a value that is not an \<^verbatim>\<open>Error\<close> at all.
\<close>

datatype err_class =
    PlainError
  | TypeError
  | SyntaxError
  | OtherError
  | AuthenticationError
  | ConfigurationError
  | YotoAPIError
  | InternalServerError
  | OtherAppError

datatype ctx_val = CNum nat | CStr string | CUndefined

type_synonym err_context = "(string \<times> ctx_val) list"

datatype thrown = Err err_class string err_context | NonError

fun isAppError :: "thrown \<Rightarrow> bool" where
  "isAppError (Err AuthenticationError m c) = True"
| "isAppError (Err ConfigurationError m c) = True"
| "isAppError (Err YotoAPIError m c) = True"
| "isAppError (Err InternalServerError m c) = True"
| "isAppError (Err OtherAppError m c) = True"
| "isAppError e = False"

fun normalizeError :: "thrown \<Rightarrow> string \<Rightarrow> thrown" where
  "normalizeError (Err k m c) defaultMessage =
     (if isAppError (Err k m c) then Err k m c else Err InternalServerError m [])"
| "normalizeError NonError defaultMessage = Err InternalServerError defaultMessage []"

fun message :: "thrown \<Rightarrow> string" where
  "message (Err k m c) = m"
| "message NonError = []"

text \<open>\<^verbatim>\<open>new YotoAPIError(message, context)\<close>: the service name is prefixed by
  \<^verbatim>\<open>ExternalServiceError\<close>.\<close>

definition newYotoAPIError :: "string \<Rightarrow> err_context \<Rightarrow> thrown" where
  "newYotoAPIError m c = Err YotoAPIError (''Yoto API: '' @ m) c"

text \<open>
  A response of \<^verbatim>\<open>fetch\<close>: its status, and what \<^verbatim>\<open>await response.text()\<close> and
  \<^verbatim>\<open>await response.json()\<close> give (either may reject). \<^verbatim>\<open>fetch\<close> itself rejects or resolves.
\<close>

datatype 'a response =
  Response (status: nat) (text_result: "thrown + string") (json_result: "thrown + 'a")

datatype 'a fetched = Rejects thrown | Resolves "'a response"

definition ok :: "'a response \<Rightarrow> bool" where
  "ok r = (200 \<le> status r \<and> status r \<le> 299)"

text \<open>JavaScript truthiness of an optional string: \<^verbatim>\<open>undefined\<close> and \<^verbatim>\<open>''\<close> are falsy.\<close>

fun truthy :: "string option \<Rightarrow> bool" where
  "truthy None = False"
| "truthy (Some s) = (s \<noteq> [])"

text \<open>\<^verbatim>\<open>Number.prototype.toString()\<close> on a natural number, and \<^verbatim>\<open>padStart(2, '0')\<close>.\<close>

definition digit_char :: "nat \<Rightarrow> char" where
  "digit_char d = ''0123456789'' ! d"

fun toString :: "nat \<Rightarrow> string" where
  "toString n = (if n < 10 then [digit_char n] else toString (n div 10) @ [digit_char (n mod 10)])"

declare toString.simps [simp del]

definition padStart2 :: "string \<Rightarrow> string" where
  "padStart2 s = replicate (2 - length s) (CHR ''0'') @ s"

section \<open>Token lifecycle (lib/auth/yoto.ts)\<close>

record token_response =
  access_token :: string
  refresh_token :: string
  expires_in :: "nat option"
  token_type :: string

text \<open>The \<^verbatim>\<open>tokenData: any\<close> argument of \<^verbatim>\<open>ensureValidToken\<close>: either field may be absent.\<close>

record token_data =
  td_access_token :: "string option"
  td_refresh_token :: "string option"

text \<open>The decoded JWT payload; \<^verbatim>\<open>exp\<close> is in seconds and may be absent, in which case
  \<^verbatim>\<open>decoded.exp * 1000\<close> is \<^verbatim>\<open>NaN\<close> and every comparison with it is false.\<close>

record jwt_payload =
  exp_claim :: "int option"

record request =
  req_method :: string
  req_url :: string
  req_headers :: "(string \<times> string) list"
  req_body :: "(string \<times> string) list"

text \<open>What \<^verbatim>\<open>JSON.parse(errorText)\<close> gives as far as the code looks at it: it throws, it yields
  \<^verbatim>\<open>null\<close> (on which a property read throws), or a value with the two optional fields.\<close>

datatype parsed_body =
    ParseThrows
  | ParsedNull
  | ParsedObj (body_error: "string option") (body_error_description: "string option")

text \<open>
  The surroundings of the module: the network (the answer to the \<open>i\<close>-th request of a call),
  \<^verbatim>\<open>JSON.parse\<close>, the process environment, \<^verbatim>\<open>Buffer.from(..).toString('base64')\<close>, the
  \<^verbatim>\<open>jwt-decode\<close> library and the clock (milliseconds).
\<close>

record auth_env =
  fetch :: "nat \<Rightarrow> request \<Rightarrow> token_response fetched"
  JSON_parse :: "string \<Rightarrow> parsed_body"
  YOTO_CLIENT_SECRET :: "string option"
  YOTO_CLIENT_ID :: "string option"
  base64 :: "string \<Rightarrow> string"
  jwtDecode :: "string \<Rightarrow> thrown + jwt_payload"
  Date_now :: int

definition token_url :: string where
  "token_url = ''https://login.yotoplay.com/oauth/token''"

text \<open>The \<^verbatim>\<open>try { error = JSON.parse(errorText) } catch { ... }\<close> block shared by both grants.\<close>

definition parse_error_body :: "auth_env \<Rightarrow> string \<Rightarrow> parsed_body" where
  "parse_error_body env errorText =
     (case JSON_parse env errorText of
        ParseThrows \<Rightarrow> ParsedObj (Some ''invalid_response'') (Some errorText)
      | p \<Rightarrow> p)"

definition or_unknown :: "string option \<Rightarrow> string" where
  "or_unknown c = (case c of None \<Rightarrow> ''Unknown error'' | Some s \<Rightarrow> if s = [] then ''Unknown error'' else s)"

definition null_property_error :: thrown where
  "null_property_error = Err TypeError ''Cannot read properties of null'' []"

text \<open>The tail of \<^verbatim>\<open>exchangeCodeForTokens\<close> after the last request: lines 112-128.\<close>

definition exchange_finish :: "auth_env \<Rightarrow> token_response response \<Rightarrow> thrown + token_response" where
  "exchange_finish env r =
     (if \<not> ok r then
        (case text_result r of
           Inl e \<Rightarrow> Inl e
         | Inr errorText \<Rightarrow>
             (case parse_error_body env errorText of
                ParsedObj c d \<Rightarrow>
                  Inl (Err PlainError
                        (''Token exchange failed: '' @ or_unknown c @
                         (case d of None \<Rightarrow> [] | Some s \<Rightarrow> if s = [] then [] else '' - '' @ s)) [])
              | _ \<Rightarrow> Inl null_property_error))
      else json_result r)"

definition exchange_request1 :: "string \<Rightarrow> string \<Rightarrow> string \<Rightarrow> string \<Rightarrow> request" where
  "exchange_request1 clientId code codeVerifier redirectUri =
     \<lparr> req_method = ''POST'', req_url = token_url,
       req_headers = [(''Content-Type'', ''application/x-www-form-urlencoded'')],
       req_body = [(''grant_type'', ''authorization_code''), (''client_id'', clientId),
                   (''code_verifier'', codeVerifier), (''code'', code),
                   (''redirect_uri'', redirectUri)] \<rparr>"

definition exchange_request2 :: "auth_env \<Rightarrow> string \<Rightarrow> string \<Rightarrow> string \<Rightarrow> string \<Rightarrow> request" where
  "exchange_request2 env clientId code codeVerifier redirectUri =
     \<lparr> req_method = ''POST'', req_url = token_url,
       req_headers = [(''Content-Type'', ''application/x-www-form-urlencoded''),
                      (''Authorization'',
                       (if truthy (YOTO_CLIENT_SECRET env)
                        then ''Basic '' @ base64 env (clientId @ '':'' @ the (YOTO_CLIENT_SECRET env))
                        else ''Basic '' @ base64 env (clientId @ '':'')))],
       req_body = [(''grant_type'', ''authorization_code''),
                   (''code_verifier'', codeVerifier), (''code'', code),
                   (''redirect_uri'', redirectUri)] \<rparr>"

text \<open>\<^verbatim>\<open>exchangeCodeForTokens\<close>: the requests it sent, in order, and its outcome.\<close>

definition exchangeCodeForTokens ::
  "auth_env \<Rightarrow> string \<Rightarrow> string \<Rightarrow> string \<Rightarrow> string \<Rightarrow> request list \<times> (thrown + token_response)" where
  "exchangeCodeForTokens env clientId code codeVerifier redirectUri =
     (let req1 = exchange_request1 clientId code codeVerifier redirectUri in
      case fetch env 0 req1 of
        Rejects e \<Rightarrow> ([req1], Inl e)
      | Resolves r1 \<Rightarrow>
          if \<not> ok r1 \<and> status r1 = 401 then
            (let req2 = exchange_request2 env clientId code codeVerifier redirectUri in
             case fetch env 1 req2 of
               Rejects e \<Rightarrow> ([req1, req2], Inl e)
             | Resolves r2 \<Rightarrow> ([req1, req2], exchange_finish env r2))
          else ([req1], exchange_finish env r1))"

definition refresh_request :: "string \<Rightarrow> string \<Rightarrow> request" where
  "refresh_request refreshToken clientId =
     \<lparr> req_method = ''POST'', req_url = token_url,
       req_headers = [(''Content-Type'', ''application/x-www-form-urlencoded'')],
       req_body = [(''grant_type'', ''refresh_token''), (''client_id'', clientId),
                   (''refresh_token'', refreshToken)] \<rparr>"

definition refreshAccessToken ::
  "auth_env \<Rightarrow> string \<Rightarrow> string \<Rightarrow> request list \<times> (thrown + token_response)" where
  "refreshAccessToken env refreshToken clientId =
     (let req = refresh_request refreshToken clientId in
      case fetch env 0 req of
        Rejects e \<Rightarrow> ([req], Inl e)
      | Resolves r \<Rightarrow>
          if \<not> ok r then
            (case text_result r of
               Inl e \<Rightarrow> ([req], Inl e)
             | Inr errorText \<Rightarrow>
                 (case parse_error_body env errorText of
                    ParsedObj c d \<Rightarrow>
                      ([req], Inl (Err AuthenticationError (''Token refresh failed: '' @ or_unknown c) []))
                  | _ \<Rightarrow> ([req], Inl null_property_error)))
          else ([req], json_result r))"

definition fiveMinutesInMs :: int where
  "fiveMinutesInMs = 5 * 60 * 1000"

definition isTokenExpired :: "auth_env \<Rightarrow> string \<Rightarrow> bool" where
  "isTokenExpired env accessToken =
     (case jwtDecode env accessToken of
        Inl e \<Rightarrow> True
      | Inr decoded \<Rightarrow>
          (case exp_claim decoded of
             None \<Rightarrow> False
           | Some e \<Rightarrow> e * 1000 \<le> Date_now env + fiveMinutesInMs))"

text \<open>\<^verbatim>\<open>ensureValidToken\<close>: the requests it sent and the access token it returns, or what it
  throws. \<^verbatim>\<open>tokenData\<close> is \<open>None\<close> for \<^verbatim>\<open>null\<close> or \<^verbatim>\<open>undefined\<close>.\<close>

definition ensureValidToken ::
  "auth_env \<Rightarrow> token_data option \<Rightarrow> request list \<times> (thrown + string)" where
  "ensureValidToken env tokenData =
     (case tokenData of
        None \<Rightarrow> ([], Inl (Err AuthenticationError ''No access token available'' []))
      | Some td \<Rightarrow>
          (case td_access_token td of
             None \<Rightarrow> ([], Inl (Err AuthenticationError ''No access token available'' []))
           | Some tok \<Rightarrow>
               if tok = [] then ([], Inl (Err AuthenticationError ''No access token available'' []))
               else if \<not> isTokenExpired env tok then ([], Inr tok)
               else if \<not> truthy (td_refresh_token td) then
                 ([], Inl (Err AuthenticationError ''Token expired and no refresh token available'' []))
               else if \<not> truthy (YOTO_CLIENT_ID env) then
                 ([], Inl (Err ConfigurationError ''YOTO_CLIENT_ID not configured'' []))
               else
                 (case refreshAccessToken env (the (td_refresh_token td)) (the (YOTO_CLIENT_ID env)) of
                    (sent, Inl e) \<Rightarrow>
                      (sent, Inl (Err AuthenticationError ''Token refresh failed - please re-authenticate'' []))
                  | (sent, Inr refreshedTokens) \<Rightarrow> (sent, Inr (access_token refreshedTokens)))))"

text \<open>A token-data object carries an access token when the field is present and non-empty.\<close>

fun has_access_token :: "token_data option \<Rightarrow> bool" where
  "has_access_token None = False"
| "has_access_token (Some td) = truthy (td_access_token td)"

section \<open>Card synchronisation (lib/yoto/library.ts)\<close>

subsection \<open>Strings\<close>

text \<open>Strings are byte strings; case mapping and the character classes \<^verbatim>\<open>\w\<close>, \<^verbatim>\<open>\S\<close> are
  modelled on ASCII.\<close>

definition is_space :: "char \<Rightarrow> bool" where
  "is_space c = (let n = (of_char c :: nat) in n = 32 \<or> (9 \<le> n \<and> n \<le> 13))"

definition is_word :: "char \<Rightarrow> bool" where
  "is_word c =
     (let n = (of_char c :: nat)
      in (48 \<le> n \<and> n \<le> 57) \<or> (65 \<le> n \<and> n \<le> 90) \<or> n = 95 \<or> (97 \<le> n \<and> n \<le> 122))"

definition lower_letters :: string where
  "lower_letters = ''abcdefghijklmnopqrstuvwxyz''"

definition upper_letters :: string where
  "upper_letters = ''ABCDEFGHIJKLMNOPQRSTUVWXYZ''"

definition toUpperCase_char :: "char \<Rightarrow> char" where
  "toUpperCase_char c = (case map_of (zip lower_letters upper_letters) c of None \<Rightarrow> c | Some u \<Rightarrow> u)"

definition toLowerCase_char :: "char \<Rightarrow> char" where
  "toLowerCase_char c = (case map_of (zip upper_letters lower_letters) c of None \<Rightarrow> c | Some l \<Rightarrow> l)"

text \<open>\<^verbatim>\<open>str.replace(/\w\S*/g, txt => txt.charAt(0).toUpperCase() + txt.substr(1).toLowerCase())\<close>\<close>

function toTitleCase :: "string \<Rightarrow> string" where
  "toTitleCase [] = []"
| "toTitleCase (c # cs) =
     (if is_word c
      then toUpperCase_char c # map toLowerCase_char (takeWhile (\<lambda>x. \<not> is_space x) cs)
             @ toTitleCase (dropWhile (\<lambda>x. \<not> is_space x) cs)
      else c # toTitleCase cs)"
  by pat_completeness auto
termination
  by (relation "measure length") (auto simp: length_dropWhile_le less_Suc_eq_le)

text \<open>\<^verbatim>\<open>String.prototype.trim\<close>, used for the cache key.\<close>

definition trim :: "string \<Rightarrow> string" where
  "trim s = rev (dropWhile is_space (rev (dropWhile is_space s)))"

text \<open>\<^verbatim>\<open>a || b\<close> on optional strings.\<close>

definition or_else :: "string option \<Rightarrow> string option \<Rightarrow> string option" where
  "or_else a b = (if truthy a then a else b)"

subsection \<open>Data\<close>

text \<open>\<^verbatim>\<open>transcodedInfo\<close> and the transcode object (\<^verbatim>\<open>data.transcode\<close>, also the cached entry).\<close>

record media_info =
  mi_duration :: "int option"
  mi_fileSize :: "int option"
  mi_channels :: "string option"
  mi_format :: "string option"

record transcode =
  transcodedSha256 :: "string option"
  transcodedInfo :: "media_info option"

record story_metadata =
  childName :: string
  adventureType :: string
  specialSkill :: string
  sm_title :: "string option"

text \<open>Tracks, chapters and cards as the remote platform returns them and as they are
  written back: every field may be absent on what is read. \<open>ch_icon\<close> is
  \<^verbatim>\<open>display.icon16x16\<close>.\<close>

record track =
  tr_key :: "string option"
  tr_title :: "string option"
  tr_trackUrl :: "string option"
  tr_duration :: "int option"
  tr_fileSize :: "int option"
  tr_channels :: "string option"
  tr_format :: "string option"
  tr_type :: "string option"
  tr_overlayLabel :: "string option"

record card_chapter =
  ch_key :: "string option"
  ch_title :: "string option"
  ch_overlayLabel :: "string option"
  ch_tracks :: "track list option"
  ch_icon :: "string option"

record card_content =
  chapters :: "card_chapter list option"

record media =
  md_duration :: "int option"
  md_fileSize :: "int option"

record card_metadata =
  cm_media :: "media option"

text \<open>\<open>cd_createdAt\<close> is \<^verbatim>\<open>new Date(card.createdAt).getTime()\<close>.\<close>

record card =
  cd_cardId :: "string option"
  cd_id :: "string option"
  cd_title :: "string option"
  cd_createdAt :: int
  cd_content :: "card_content option"
  cd_metadata :: "card_metadata option"

text \<open>The body of \<^verbatim>\<open>GET /content/:id\<close>: the card nested under \<^verbatim>\<open>card\<close>, or the card itself.\<close>

datatype full_card_data = Nested card | Flat card

fun unwrap_card :: "full_card_data \<Rightarrow> card" where
  "unwrap_card (Nested c) = c"
| "unwrap_card (Flat c) = c"

record mine_body =
  cards :: "card list option"

record upload_slot =
  uploadUrl :: "string option"
  uploadId :: "string option"

text \<open>The body of the write endpoint's answer: \<^verbatim>\<open>cardId\<close>, \<^verbatim>\<open>card?.cardId\<close> and \<^verbatim>\<open>id\<close>.\<close>

record write_result =
  wr_cardId :: "string option"
  wr_card_cardId :: "string option"
  wr_id :: "string option"

text \<open>The payloads of the two writes. \<^verbatim>\<open>readableFileSize\<close>, a rounded floating-point figure
  for display, is left out.\<close>

record create_payload =
  cp_title :: string
  cp_chapters :: "card_chapter list"
  cp_playbackType :: string
  cp_resumeTimeout :: nat
  cp_duration :: "int option"
  cp_fileSize :: "int option"

record update_payload =
  up_cardId :: "string option"
  up_title :: string
  up_chapters :: "card_chapter list"
  up_duration :: int
  up_fileSize :: int

record upload_result =
  success :: bool
  cardId :: "string option"
  error :: "string option"
  transcodeInfo :: "transcode option"

record audio_upload_result =
  au_success :: bool
  au_transcodedAudio :: "transcode option"
  au_error :: "string option"

record audio_result =
  ar_success :: bool
  ar_audioBuffer :: "nat list option"
  ar_error :: "string option"

text \<open>
  The surroundings of one run of the workflow: the answer of every call the code can
  make. \<open>w_cacheRead\<close> is \<^verbatim>\<open>mkdir\<close>, \<^verbatim>\<open>readFile\<close> and \<^verbatim>\<open>JSON.parse\<close> on the cache file of
  a key (\<open>Inr None\<close> for a falsy parsed value); \<open>w_poll i\<close> answers the poll made after
  \<open>i\<close> earlier ones; bodies that lack the object the code reads a property from are \<open>None\<close>.
\<close>

record world =
  w_isDevelopment :: bool
  w_md5 :: "string \<Rightarrow> string"
  w_cacheRead :: "string \<Rightarrow> thrown + transcode option"
  w_importTts :: "thrown + unit"
  w_getRandomVoiceId :: "thrown + string option"
  w_generateAudio :: "string \<Rightarrow> string \<Rightarrow> thrown + audio_result"
  w_uploadUrl :: "upload_slot option fetched"
  w_put :: "unit fetched"
  w_poll :: "nat \<Rightarrow> transcode option fetched"
  w_contentMine :: "mine_body fetched"
  w_cardDetail :: "full_card_data fetched"
  w_cardDetail2 :: "full_card_data fetched"
  w_create :: "write_result fetched"
  w_update :: "write_result fetched"

definition HERO_CARD_TITLE :: string where
  "HERO_CARD_TITLE = ''You're The Hero!''"

definition chapterIcon :: string where
  "chapterIcon = ''yoto:#gTMbacpoeSMYqc9fNLJnxPjylraNG6jIrYEWevyzYbA''"

definition undefined_property_error :: thrown where
  "undefined_property_error = Err TypeError ''Cannot read properties of undefined'' []"

subsection \<open>The transcode cache\<close>

definition getStoryHashCacheKey :: "world \<Rightarrow> string \<Rightarrow> string" where
  "getStoryHashCacheKey w storyText = w_md5 w (trim storyText)"

definition getCachedTranscode :: "world \<Rightarrow> string \<Rightarrow> transcode option" where
  "getCachedTranscode w cacheKey =
     (if \<not> w_isDevelopment w then None
      else (case w_cacheRead w cacheKey of Inl e \<Rightarrow> None | Inr cached \<Rightarrow> cached))"

subsection \<open>Waiting for the transcoder\<close>

datatype event = Poll | Sleep nat

definition maxAttempts :: nat where
  "maxAttempts = 60"

text \<open>One pass through the loop body up to the \<^verbatim>\<open>break\<close>: it throws, it finds the transcode,
  or it goes on to sleep.\<close>

datatype poll_outcome = Throws thrown | Done transcode | Continue

definition poll_step :: "transcode option fetched \<Rightarrow> poll_outcome" where
  "poll_step f =
     (case f of
        Rejects e \<Rightarrow> Throws e
      | Resolves transcodeResponse \<Rightarrow>
          if ok transcodeResponse then
            (case json_result transcodeResponse of
               Inl e \<Rightarrow> Throws e
             | Inr None \<Rightarrow> Throws undefined_property_error
             | Inr (Some tc) \<Rightarrow> if truthy (transcodedSha256 tc) then Done tc else Continue)
          else Continue)"

text \<open>The \<^verbatim>\<open>while (attempts < maxAttempts)\<close> loop: the polls and sleeps made, and at its exit
  either what was thrown or the values of \<^verbatim>\<open>transcodedAudio\<close> and \<^verbatim>\<open>attempts\<close>.\<close>

function waitLoop ::
  "(nat \<Rightarrow> transcode option fetched) \<Rightarrow> nat \<Rightarrow> event list \<times> (thrown + transcode option \<times> nat)" where
  "waitLoop poll attempts =
     (if attempts < maxAttempts then
        (case poll_step (poll attempts) of
           Throws e \<Rightarrow> ([Poll], Inl e)
         | Done tc \<Rightarrow> ([Poll], Inr (Some tc, attempts))
         | Continue \<Rightarrow>
             (case waitLoop poll (Suc attempts) of
                (evs, res) \<Rightarrow> (Poll # Sleep 500 # evs, res)))
      else ([], Inr (None, attempts)))"
  by pat_completeness auto
termination
  by (relation "measure (\<lambda>(poll, attempts). maxAttempts - attempts)") auto

declare waitLoop.simps [simp del]

text \<open>Step 3 of \<^verbatim>\<open>uploadAudioToYoto\<close>: the loop and the check after it.\<close>

definition waitForTranscoding ::
  "(nat \<Rightarrow> transcode option fetched) \<Rightarrow> string option \<Rightarrow> event list \<times> (thrown + transcode)" where
  "waitForTranscoding poll upId =
     (case waitLoop poll 0 of
        (evs, Inl e) \<Rightarrow> (evs, Inl e)
      | (evs, Inr (None, attempts)) \<Rightarrow>
          (evs, Inl (newYotoAPIError ''Transcoding timed out after 30 seconds''
                      [(''uploadId'', (case upId of None \<Rightarrow> CUndefined | Some u \<Rightarrow> CStr u)),
                       (''attempts'', CNum attempts)]))
      | (evs, Inr (Some tc, attempts)) \<Rightarrow> (evs, Inr tc))"

text \<open>The body of the \<^verbatim>\<open>try\<close> block of \<^verbatim>\<open>uploadAudioToYoto\<close>.\<close>

definition uploadAudio_body :: "world \<Rightarrow> nat list \<Rightarrow> string \<Rightarrow> thrown + transcode" where
  "uploadAudio_body w audioBuffer accessToken =
     (case w_uploadUrl w of
        Rejects e \<Rightarrow> Inl e
      | Resolves uploadUrlResponse \<Rightarrow>
          if \<not> ok uploadUrlResponse then
            (case text_result uploadUrlResponse of
               Inl e \<Rightarrow> Inl e
             | Inr errorText \<Rightarrow>
                 Inl (newYotoAPIError (''Failed to get upload URL: '' @ toString (status uploadUrlResponse))
                       [(''status'', CNum (status uploadUrlResponse)), (''responseBody'', CStr errorText)]))
          else
            (case json_result uploadUrlResponse of
               Inl e \<Rightarrow> Inl e
             | Inr None \<Rightarrow> Inl undefined_property_error
             | Inr (Some slot) \<Rightarrow>
                 if \<not> truthy (uploadUrl slot) then
                   Inl (newYotoAPIError ''Upload URL not provided in response'' [])
                 else
                   (case w_put w of
                      Rejects e \<Rightarrow> Inl e
                    | Resolves uploadResponse \<Rightarrow>
                        if \<not> ok uploadResponse then
                          Inl (newYotoAPIError (''Audio upload failed: '' @ toString (status uploadResponse)) [])
                        else snd (waitForTranscoding (w_poll w) (uploadId slot)))))"

definition uploadAudioToYoto :: "world \<Rightarrow> nat list \<Rightarrow> string \<Rightarrow> audio_upload_result" where
  "uploadAudioToYoto w audioBuffer accessToken =
     (case uploadAudio_body w audioBuffer accessToken of
        Inr transcodedAudio \<Rightarrow>
          \<lparr> au_success = True, au_transcodedAudio = Some transcodedAudio, au_error = None \<rparr>
      | Inl e \<Rightarrow>
          \<lparr> au_success = False, au_transcodedAudio = None,
            au_error = Some (message (normalizeError e ''Audio upload to Yoto failed'')) \<rparr>)"


subsection \<open>Looking up the card\<close>

text \<open>A body that is \<^verbatim>\<open>null\<close> makes the first property read throw inside the same \<^verbatim>\<open>try\<close>
  block as a rejecting \<^verbatim>\<open>json()\<close> does, and is represented as one.\<close>

definition ensure_id :: "card \<Rightarrow> string option \<Rightarrow> card" where
  "ensure_id c cid =
     (if \<not> truthy (cd_cardId c) \<and> \<not> truthy (cd_id c) then c\<lparr> cd_cardId := cid \<rparr> else c)"

text \<open>\<^verbatim>\<open>existingCards.sort((a, b) => time(b) - time(a))[0]\<close>: the sort is stable.\<close>

definition mostRecent :: "card list \<Rightarrow> card" where
  "mostRecent existingCards = hd (sort_key (\<lambda>c. - cd_createdAt c) existingCards)"

text \<open>\<^verbatim>\<open>data.cards?.filter(card => card.title === HERO_CARD_TITLE) || []\<close>\<close>

definition hero_cards :: "mine_body \<Rightarrow> card list" where
  "hero_cards data =
     (case cards data of
        None \<Rightarrow> []
      | Some cs \<Rightarrow> filter (\<lambda>c. cd_title c = Some HERO_CARD_TITLE) cs)"

definition getHeroCard :: "world \<Rightarrow> string \<Rightarrow> card option" where
  "getHeroCard w accessToken =
     (case w_contentMine w of
        Rejects e \<Rightarrow> None
      | Resolves response \<Rightarrow>
          if \<not> ok response then None
          else
            (case json_result response of
               Inl e \<Rightarrow> None
             | Inr data \<Rightarrow>
                 (let existingCards = hero_cards data
                  in if existingCards \<noteq> [] then
                       (let mostRecentCard = mostRecent existingCards;
                            cid = or_else (cd_cardId mostRecentCard) (cd_id mostRecentCard)
                        in case w_cardDetail w of
                             Rejects e \<Rightarrow> None
                           | Resolves fullCardResponse \<Rightarrow>
                               if ok fullCardResponse then
                                 (case json_result fullCardResponse of
                                    Inl e \<Rightarrow> None
                                  | Inr fullCardData \<Rightarrow> Some (ensure_id (unwrap_card fullCardData) cid))
                               else Some (ensure_id mostRecentCard cid))
                     else None)))"

subsection \<open>Building chapters and writing the card\<close>

definition createChapterFromStory :: "story_metadata \<Rightarrow> transcode \<Rightarrow> nat \<Rightarrow> card_chapter" where
  "createChapterFromStory storyMetadata transcodedAudio chapterNumber =
     (let mediaInfo = transcodedInfo transcodedAudio;
          adventureTypeFormatted =
            map (\<lambda>c. if c = CHR ''-'' then CHR '' '' else c) (adventureType storyMetadata);
          storyTitle =
            (case sm_title storyMetadata of
               None \<Rightarrow> childName storyMetadata @ [CHR 0x27] @ ''s ''
                          @ toTitleCase adventureTypeFormatted @ '' Adventure''
             | Some t \<Rightarrow>
                 if t = [] then childName storyMetadata @ [CHR 0x27] @ ''s ''
                                  @ toTitleCase adventureTypeFormatted @ '' Adventure''
                 else t);
          titleCaseTitle = toTitleCase storyTitle
      in \<lparr> ch_key = Some (padStart2 (toString chapterNumber)),
           ch_title = Some titleCaseTitle,
           ch_overlayLabel = Some (toString chapterNumber),
           ch_tracks = Some
             [\<lparr> tr_key = Some ''01'',
                tr_title = Some titleCaseTitle,
                tr_trackUrl = Some (''yoto:#'' @
                   (case transcodedSha256 transcodedAudio of None \<Rightarrow> ''undefined'' | Some h \<Rightarrow> h)),
                tr_duration = Option.bind mediaInfo mi_duration,
                tr_fileSize = Option.bind mediaInfo mi_fileSize,
                tr_channels = Option.bind mediaInfo mi_channels,
                tr_format = Option.bind mediaInfo mi_format,
                tr_type = Some ''audio'',
                tr_overlayLabel = Some ''1'' \<rparr>],
           ch_icon = Some chapterIcon \<rparr>)"

text \<open>Lines 391-411: the document \<^verbatim>\<open>createHeroCard\<close> posts.\<close>

definition create_content :: "story_metadata \<Rightarrow> transcode \<Rightarrow> create_payload" where
  "create_content storyMetadata transcodedAudio =
     (let mediaInfo = transcodedInfo transcodedAudio;
          chs = [createChapterFromStory storyMetadata transcodedAudio 1]
      in \<lparr> cp_title = HERO_CARD_TITLE,
           cp_chapters = chs,
           cp_playbackType = ''linear'',
           cp_resumeTimeout = 2592000,
           cp_duration = Option.bind mediaInfo mi_duration,
           cp_fileSize = Option.bind mediaInfo mi_fileSize \<rparr>)"

text \<open>The \<^verbatim>\<open>catch\<close> block of \<^verbatim>\<open>createHeroCard\<close>.\<close>

definition create_failed :: "thrown \<Rightarrow> upload_result" where
  "create_failed e =
     \<lparr> success = False, cardId = None,
       error = Some (message (normalizeError e ''Failed to create Hero card'')),
       transcodeInfo = None \<rparr>"

text \<open>\<^verbatim>\<open>createHeroCard\<close>: its result and the documents it posted. A missing
  \<^verbatim>\<open>transcodedAudio\<close> makes the first property read throw.\<close>

definition createHeroCard ::
  "world \<Rightarrow> story_metadata \<Rightarrow> transcode option \<Rightarrow> string \<Rightarrow> upload_result \<times> create_payload list" where
  "createHeroCard w storyMetadata transcodedAudio accessToken =
     (case transcodedAudio of
        None \<Rightarrow> (create_failed undefined_property_error, [])
      | Some ta \<Rightarrow>
          (let content = create_content storyMetadata ta
           in case w_create w of
                Rejects e \<Rightarrow> (create_failed e, [content])
              | Resolves createResponse \<Rightarrow>
                  if \<not> ok createResponse then
                    (case text_result createResponse of
                       Inl e \<Rightarrow> (create_failed e, [content])
                     | Inr errorText \<Rightarrow>
                         (create_failed (Err PlainError (''Failed to create card: '' @ errorText) []),
                          [content]))
                  else
                    (case json_result createResponse of
                       Inl e \<Rightarrow> (create_failed e, [content])
                     | Inr result \<Rightarrow>
                         (\<lparr> success = True,
                            cardId = or_else (wr_cardId result)
                                       (or_else (wr_card_cardId result) (wr_id result)),
                            error = None,
                            transcodeInfo = Some ta \<rparr>, [content]))))"

definition has_chapters :: "card \<Rightarrow> bool" where
  "has_chapters c =
     (case cd_content c of
        None \<Rightarrow> False
      | Some ct \<Rightarrow> (case chapters ct of None \<Rightarrow> False | Some chs \<Rightarrow> True))"

text \<open>Lines 468-484: the card whose chapters are merged, re-fetched when the one passed in
  has no chapter list.\<close>

definition resolve_full_card :: "world \<Rightarrow> card \<Rightarrow> thrown + card" where
  "resolve_full_card w existingCard =
     (if \<not> has_chapters existingCard then
        (case w_cardDetail2 w of
           Rejects e \<Rightarrow> Inl e
         | Resolves fullCardResponse \<Rightarrow>
             if ok fullCardResponse then
               (case json_result fullCardResponse of
                  Inl e \<Rightarrow> Inl e
                | Inr fullCardData \<Rightarrow> Inr (unwrap_card fullCardData))
             else Inr existingCard)
      else Inr existingCard)"

text \<open>\<^verbatim>\<open>fullCard.content?.chapters || []\<close>\<close>

definition existing_chapters :: "card \<Rightarrow> card_chapter list" where
  "existing_chapters fullCard =
     (case cd_content fullCard of
        None \<Rightarrow> []
      | Some ct \<Rightarrow> (case chapters ct of None \<Rightarrow> [] | Some chs \<Rightarrow> chs))"

definition clean_track :: "track \<Rightarrow> track" where
  "clean_track t =
     \<lparr> tr_key = tr_key t, tr_title = tr_title t, tr_trackUrl = tr_trackUrl t,
       tr_duration = tr_duration t, tr_fileSize = tr_fileSize t, tr_channels = tr_channels t,
       tr_format = tr_format t, tr_type = tr_type t, tr_overlayLabel = tr_overlayLabel t \<rparr>"

definition clean_chapter :: "card_chapter \<Rightarrow> card_chapter" where
  "clean_chapter c =
     \<lparr> ch_key = ch_key c, ch_title = ch_title c, ch_overlayLabel = ch_overlayLabel c,
       ch_tracks = map_option (map clean_track) (ch_tracks c),
       ch_icon = Some chapterIcon \<rparr>"

text \<open>\<^verbatim>\<open>x || 0\<close> on an optional number.\<close>

definition or_zero :: "int option \<Rightarrow> int" where
  "or_zero x = (case x of None \<Rightarrow> 0 | Some n \<Rightarrow> n)"

text \<open>Lines 486-556: the document \<^verbatim>\<open>updateHeroCard\<close> posts.\<close>

definition update_payload_of :: "card \<Rightarrow> story_metadata \<Rightarrow> transcode \<Rightarrow> update_payload" where
  "update_payload_of fullCard storyMetadata transcodedAudio =
     (let existingChapters = existing_chapters fullCard;
          nextChapterNumber = length existingChapters + 1;
          newChapter = createChapterFromStory storyMetadata transcodedAudio nextChapterNumber;
          cleanExistingChapters = map clean_chapter existingChapters;
          allChapters = cleanExistingChapters @ [newChapter];
          mediaInfo = transcodedInfo transcodedAudio;
          existingDuration =
            or_zero (Option.bind (Option.bind (cd_metadata fullCard) cm_media) md_duration);
          existingFileSize =
            or_zero (Option.bind (Option.bind (cd_metadata fullCard) cm_media) md_fileSize);
          newDuration = existingDuration + or_zero (Option.bind mediaInfo mi_duration);
          newFileSize = existingFileSize + or_zero (Option.bind mediaInfo mi_fileSize)
      in \<lparr> up_cardId = or_else (cd_cardId fullCard) (cd_id fullCard),
           up_title = HERO_CARD_TITLE,
           up_chapters = allChapters,
           up_duration = newDuration,
           up_fileSize = newFileSize \<rparr>)"

text \<open>The \<^verbatim>\<open>catch\<close> block of \<^verbatim>\<open>updateHeroCard\<close>.\<close>

definition update_failed :: "thrown \<Rightarrow> upload_result" where
  "update_failed e =
     \<lparr> success = False, cardId = None,
       error = Some (case e of Err k m c \<Rightarrow> m | NonError \<Rightarrow> ''Unknown error''),
       transcodeInfo = None \<rparr>"

text \<open>\<^verbatim>\<open>updateHeroCard\<close>: its result and the documents it posted.\<close>

definition updateHeroCard ::
  "world \<Rightarrow> card \<Rightarrow> story_metadata \<Rightarrow> transcode option \<Rightarrow> string \<Rightarrow> upload_result \<times> update_payload list" where
  "updateHeroCard w existingCard storyMetadata transcodedAudio accessToken =
     (case resolve_full_card w existingCard of
        Inl e \<Rightarrow> (update_failed e, [])
      | Inr fullCard \<Rightarrow>
          (case transcodedAudio of
             None \<Rightarrow> (update_failed undefined_property_error, [])
           | Some ta \<Rightarrow>
               (let updatePayload = update_payload_of fullCard storyMetadata ta
                in case w_update w of
                     Rejects e \<Rightarrow> (update_failed e, [updatePayload])
                   | Resolves updateResponse \<Rightarrow>
                       if \<not> ok updateResponse then
                         (case text_result updateResponse of
                            Inl e \<Rightarrow> (update_failed e, [updatePayload])
                          | Inr errorText \<Rightarrow>
                              (update_failed (Err PlainError (''Failed to update card: '' @ errorText) []),
                               [updatePayload]))
                       else
                         (case json_result updateResponse of
                            Inl e \<Rightarrow> (update_failed e, [updatePayload])
                          | Inr result \<Rightarrow>
                              (\<lparr> success = True,
                                 cardId = or_else (wr_cardId result) (wr_id result),
                                 error = None,
                                 transcodeInfo = Some ta \<rparr>, [updatePayload])))))"

subsection \<open>The workflow\<close>

definition failure :: "string \<Rightarrow> upload_result" where
  "failure m = \<lparr> success = False, cardId = None, error = Some m, transcodeInfo = None \<rparr>"

text \<open>Steps 2 and 3 of \<^verbatim>\<open>uploadStoryToYoto\<close>.\<close>

definition sync_card ::
  "world \<Rightarrow> story_metadata \<Rightarrow> transcode option \<Rightarrow> string \<Rightarrow> upload_result" where
  "sync_card w storyMetadata transcodedAudio accessToken =
     (case getHeroCard w accessToken of
        Some existingCard \<Rightarrow> fst (updateHeroCard w existingCard storyMetadata transcodedAudio accessToken)
      | None \<Rightarrow> fst (createHeroCard w storyMetadata transcodedAudio accessToken))"

text \<open>The body of the \<^verbatim>\<open>try\<close> block of \<^verbatim>\<open>uploadStoryToYoto\<close>: what it returns, or what is
  thrown inside it. Writing the cache (\<^verbatim>\<open>cacheTranscode\<close>) catches its own failures and
  returns nothing, so it leaves no mark here.\<close>

definition uploadStory_body ::
  "world \<Rightarrow> string \<Rightarrow> story_metadata \<Rightarrow> string \<Rightarrow> thrown + upload_result" where
  "uploadStory_body w storyText storyMetadata accessToken =
     (let cacheKey = getStoryHashCacheKey w storyText
      in case getCachedTranscode w cacheKey of
           Some cached \<Rightarrow> Inr (sync_card w storyMetadata (Some cached) accessToken)
         | None \<Rightarrow>
             (case w_importTts w of
                Inl e \<Rightarrow> Inl e
              | Inr u \<Rightarrow>
                  (case w_getRandomVoiceId w of
                     Inl e \<Rightarrow> Inl e
                   | Inr None \<Rightarrow> Inr (failure ''No voices configured for audio generation'')
                   | Inr (Some voiceId) \<Rightarrow>
                       if voiceId = [] then Inr (failure ''No voices configured for audio generation'')
                       else
                         (case w_generateAudio w storyText voiceId of
                            Inl e \<Rightarrow> Inl e
                          | Inr audioResult \<Rightarrow>
                              (case ar_audioBuffer audioResult of
                                 None \<Rightarrow>
                                   Inr (failure (if truthy (ar_error audioResult)
                                                 then the (ar_error audioResult)
                                                 else ''Audio generation failed''))
                               | Some audioBuffer \<Rightarrow>
                                   if \<not> ar_success audioResult then
                                     Inr (failure (if truthy (ar_error audioResult)
                                                   then the (ar_error audioResult)
                                                   else ''Audio generation failed''))
                                   else
                                     (let uploadResult = uploadAudioToYoto w audioBuffer accessToken
                                      in if \<not> au_success uploadResult then
                                           Inr \<lparr> success = False, cardId = None,
                                                 error = au_error uploadResult,
                                                 transcodeInfo = None \<rparr>
                                         else Inr (sync_card w storyMetadata
                                                     (au_transcodedAudio uploadResult) accessToken)))))))"

text \<open>\<^verbatim>\<open>uploadStoryToYoto\<close>: \<open>Inr\<close> is a returned result, \<open>Inl\<close> an exception that escapes.\<close>

definition uploadStoryToYoto ::
  "world \<Rightarrow> string \<Rightarrow> story_metadata \<Rightarrow> string \<Rightarrow> thrown + upload_result" where
  "uploadStoryToYoto w storyText storyMetadata accessToken =
     (case uploadStory_body w storyText storyMetadata accessToken of
        Inr r \<Rightarrow> Inr r
      | Inl e \<Rightarrow> Inr (failure (message (normalizeError e ''uploadStoryToYoto failed''))))"


definition write_ok :: "world \<Rightarrow> string \<Rightarrow> write_result response \<Rightarrow> write_result \<Rightarrow> bool" where
  "write_ok w accessToken resp wr =
     (ok resp \<and> json_result resp = Inr wr \<and>
      (case getHeroCard w accessToken of
         Some existingCard \<Rightarrow>
           w_update w = Resolves resp \<and>
           (case resolve_full_card w existingCard of Inl e \<Rightarrow> False | Inr fullCard \<Rightarrow> True)
       | None \<Rightarrow> w_create w = Resolves resp))"

definition written_id :: "world \<Rightarrow> string \<Rightarrow> write_result \<Rightarrow> string option" where
  "written_id w accessToken wr =
     (case getHeroCard w accessToken of
        Some existingCard \<Rightarrow> or_else (wr_cardId wr) (wr_id wr)
      | None \<Rightarrow> or_else (wr_cardId wr) (or_else (wr_card_cardId wr) (wr_id wr)))"

subsection \<open>Aggregates and keys of a chapter list\<close>

definition all_tracks :: "card_chapter list \<Rightarrow> track list" where
  "all_tracks chs = concat (map (\<lambda>c. case ch_tracks c of None \<Rightarrow> [] | Some ts \<Rightarrow> ts) chs)"

definition total_duration :: "card_chapter list \<Rightarrow> int" where
  "total_duration chs = sum_list (map (\<lambda>t. or_zero (tr_duration t)) (all_tracks chs))"

definition total_fileSize :: "card_chapter list \<Rightarrow> int" where
  "total_fileSize chs = sum_list (map (\<lambda>t. or_zero (tr_fileSize t)) (all_tracks chs))"

text \<open>The keys \<^verbatim>\<open>01\<close> .. \<open>n\<close>, each zero-padded to two digits.\<close>

definition contiguous_keys :: "nat \<Rightarrow> string option list" where
  "contiguous_keys n = map (\<lambda>i. Some (padStart2 (toString i))) [1..<Suc n]"

section \<open>Example surroundings\<close>

definition demo_jwtDecode :: "string \<Rightarrow> thrown + jwt_payload" where
  "demo_jwtDecode t =
     (if t = ''fresh'' then Inr \<lparr> exp_claim = Some 2000 \<rparr>
      else if t = ''stale'' then Inr \<lparr> exp_claim = Some 1000 \<rparr>
      else Inl (Err OtherError ''Invalid token specified'' []))"

definition demo_token_response :: token_response where
  "demo_token_response =
     \<lparr> access_token = ''new'', refresh_token = ''r2'', expires_in = Some 3600, token_type = ''Bearer'' \<rparr>"

definition demo_env :: auth_env where
  "demo_env =
     \<lparr> fetch = (\<lambda>i req. Resolves (Response 400
                  (Inr ''invalid_client'') (Inl (Err SyntaxError ''Unexpected token'' [])))),
       JSON_parse = (\<lambda>s. if s = ''invalid_client''
                          then ParsedObj (Some ''invalid_client'') (Some ''Invalid client'')
                          else ParseThrows),
       YOTO_CLIENT_SECRET = None,
       YOTO_CLIENT_ID = Some ''client'',
       base64 = (\<lambda>s. s),
       jwtDecode = demo_jwtDecode,
       Date_now = 1000000 \<rparr>"

definition demo_transcode :: transcode where
  "demo_transcode =
     \<lparr> transcodedSha256 = Some ''abc'',
       transcodedInfo = Some \<lparr> mi_duration = Some 50, mi_fileSize = Some 500,
                               mi_channels = Some ''stereo'', mi_format = Some ''aac'' \<rparr> \<rparr>"

definition pending :: "transcode option fetched" where
  "pending = Resolves (Response 202 (Inr []) (Inr (Some \<lparr> transcodedSha256 = None, transcodedInfo = None \<rparr>)))"

definition ready :: "transcode option fetched" where
  "ready = Resolves (Response 200 (Inr []) (Inr (Some demo_transcode)))"

definition demo_poll :: "nat \<Rightarrow> transcode option fetched" where
  "demo_poll i = (if i = 2 then ready else pending)"

definition demo_meta :: story_metadata where
  "demo_meta =
     \<lparr> childName = ''Emma'', adventureType = ''space-pirates'', specialSkill = ''flying'',
       sm_title = None \<rparr>"

definition old_chapter :: "string \<Rightarrow> int \<Rightarrow> int \<Rightarrow> card_chapter" where
  "old_chapter k d f =
     \<lparr> ch_key = Some k, ch_title = Some ''Old Story'', ch_overlayLabel = Some ''1'',
       ch_tracks = Some
         [\<lparr> tr_key = Some ''01'', tr_title = Some ''Old Story'', tr_trackUrl = Some ''yoto:#old'',
            tr_duration = Some d, tr_fileSize = Some f, tr_channels = Some ''stereo'',
            tr_format = Some ''aac'', tr_type = Some ''audio'', tr_overlayLabel = Some ''1'' \<rparr>],
       ch_icon = None \<rparr>"

definition demo_card :: "card_chapter list \<Rightarrow> card_metadata option \<Rightarrow> card" where
  "demo_card chs md =
     \<lparr> cd_cardId = Some ''card1'', cd_id = None, cd_title = Some HERO_CARD_TITLE,
       cd_createdAt = 100, cd_content = Some \<lparr> chapters = Some chs \<rparr>, cd_metadata = md \<rparr>"

definition demo_summary :: card where
  "demo_summary =
     \<lparr> cd_cardId = Some ''card1'', cd_id = None, cd_title = Some HERO_CARD_TITLE,
       cd_createdAt = 100, cd_content = None, cd_metadata = None \<rparr>"

definition stored_media :: "int \<Rightarrow> int \<Rightarrow> card_metadata option" where
  "stored_media d f = Some \<lparr> cm_media = Some \<lparr> md_duration = Some d, md_fileSize = Some f \<rparr> \<rparr>"

text \<open>A card with one chapter whose stored aggregate is missing.\<close>

definition demo_card_stale :: card where
  "demo_card_stale = demo_card [old_chapter ''01'' 100 1000] None"

text \<open>A card whose only chapter carries the key \<^verbatim>\<open>05\<close>.\<close>

definition demo_card_key05 :: card where
  "demo_card_key05 = demo_card [old_chapter ''05'' 100 1000] (stored_media 100 1000)"

definition demo_card3 :: card where
  "demo_card3 =
     demo_card [old_chapter ''01'' 100 1000, old_chapter ''02'' 100 1000, old_chapter ''03'' 100 1000]
       (stored_media 300 3000)"

definition demo_write_result :: write_result where
  "demo_write_result = \<lparr> wr_cardId = Some ''card1'', wr_card_cardId = None, wr_id = None \<rparr>"

definition json_rejects :: "thrown + 'a" where
  "json_rejects = Inl (Err SyntaxError ''Unexpected token'' [])"

definition demo_world :: world where
  "demo_world =
     \<lparr> w_isDevelopment = False,
       w_md5 = (\<lambda>s. s),
       w_cacheRead = (\<lambda>k. Inl (Err OtherError ''ENOENT'' [])),
       w_importTts = Inr (),
       w_getRandomVoiceId = Inr (Some ''voice1''),
       w_generateAudio = (\<lambda>t v. Inr \<lparr> ar_success = True, ar_audioBuffer = Some [1, 2, 3], ar_error = None \<rparr>),
       w_uploadUrl = Resolves (Response 200 (Inr [])
                       (Inr (Some \<lparr> uploadUrl = Some ''https://upload'', uploadId = Some ''u1'' \<rparr>))),
       w_put = Resolves (Response 200 (Inr []) (Inr ())),
       w_poll = demo_poll,
       w_contentMine = Resolves (Response 200 (Inr []) (Inr \<lparr> cards = Some [demo_summary] \<rparr>)),
       w_cardDetail = Resolves (Response 200 (Inr []) (Inr (Nested demo_card_key05))),
       w_cardDetail2 = Resolves (Response 200 (Inr []) (Inr (Nested demo_card_key05))),
       w_create = Resolves (Response 200 (Inr []) (Inr demo_write_result)),
       w_update = Resolves (Response 200 (Inr []) (Inr demo_write_result)) \<rparr>"

definition server_error :: "string \<Rightarrow> 'a fetched" where
  "server_error body = Resolves (Response 500 (Inr body) json_rejects)"

definition network_down :: "'a fetched" where
  "network_down = Rejects (Err TypeError ''fetch failed'' [])"

definition demo_world_rejecting :: world where
  "demo_world_rejecting = demo_world \<lparr> w_update := server_error ''boom'' \<rparr>"

definition with_mine :: "mine_body fetched \<Rightarrow> world" where
  "with_mine f = demo_world \<lparr> w_contentMine := f \<rparr>"

definition with_detail :: "full_card_data fetched \<Rightarrow> world" where
  "with_detail f = demo_world \<lparr> w_cardDetail := f \<rparr>"

definition demo_mine :: "mine_body response" where
  "demo_mine = Response 200 (Inr []) (Inr \<lparr> cards = Some [demo_summary] \<rparr>)"

definition demo_env_401 :: auth_env where
  "demo_env_401 =
     demo_env \<lparr> fetch := (\<lambda>i req. Resolves (Response 401 (Inr ''invalid_client'') json_rejects)) \<rparr>"




section \<open>Properties of the token lifecycle\<close>

lemma isTokenExpired_undecodable:
  "jwtDecode env t = Inl e \<Longrightarrow> isTokenExpired env t"
  by (simp add: isTokenExpired_def)

lemma isTokenExpired_decoded:
  "jwtDecode env t = Inr p \<Longrightarrow> exp_claim p = Some e \<Longrightarrow>
   isTokenExpired env t = (e * 1000 \<le> Date_now env + 5 * 60 * 1000)"
  by (simp add: isTokenExpired_def fiveMinutesInMs_def)

text \<open>
  C7. The expiry of a decoded token is \<open>e * 1000\<close> milliseconds. If
  \<open>now + 5 min \<ge> expiry\<close> then \<open>isTokenExpired\<close> returns true; if \<open>now + 5 min < expiry\<close>
  it returns false; and a token that cannot be decoded is expired.
\<close>

theorem isTokenExpired_spec:
  "(jwtDecode env t = Inr p \<and> exp_claim p = Some e \<and> Date_now env + 5 * 60 * 1000 \<ge> e * 1000
      \<longrightarrow> isTokenExpired env t) \<and>
   (jwtDecode env t = Inr p \<and> exp_claim p = Some e \<and> Date_now env + 5 * 60 * 1000 < e * 1000
      \<longrightarrow> \<not> isTokenExpired env t) \<and>
   ((\<exists>err. jwtDecode env t = Inl err) \<longrightarrow> isTokenExpired env t)"
  by (auto simp: isTokenExpired_decoded isTokenExpired_undecodable)

theorem isTokenExpired_spec_witness:
  "(jwtDecode demo_env ''stale'' = Inr \<lparr> exp_claim = Some 1000 \<rparr> \<and>
    Date_now demo_env + 5 * 60 * 1000 \<ge> 1000 * 1000 \<and> isTokenExpired demo_env ''stale'') \<and>
   (jwtDecode demo_env ''fresh'' = Inr \<lparr> exp_claim = Some 2000 \<rparr> \<and>
    Date_now demo_env + 5 * 60 * 1000 < 2000 * 1000 \<and> \<not> isTokenExpired demo_env ''fresh'') \<and>
   (jwtDecode demo_env ''junk'' = Inl (Err OtherError ''Invalid token specified'' []) \<and>
    isTokenExpired demo_env ''junk'')"
  using isTokenExpired_spec [of demo_env "''stale''" "\<lparr> exp_claim = Some 1000 \<rparr>" 1000]
        isTokenExpired_spec [of demo_env "''fresh''" "\<lparr> exp_claim = Some 2000 \<rparr>" 2000]
        isTokenExpired_spec [of demo_env "''junk''"]
  by (simp add: demo_env_def demo_jwtDecode_def)

text \<open>
  C8. When the access token is present and not expired, \<open>ensureValidToken\<close> returns it and
  sends no request. When the access token is expired and there is no refresh token, it
  throws an \<open>AuthenticationError\<close>, again without a request.
\<close>

theorem ensureValidToken_spec:
  "(td_access_token td = Some tok \<and> tok \<noteq> [] \<and> \<not> isTokenExpired env tok
      \<longrightarrow> ensureValidToken env (Some td) = ([], Inr tok)) \<and>
   (td_access_token td = Some tok \<and> isTokenExpired env tok \<and> \<not> truthy (td_refresh_token td)
      \<longrightarrow> (\<exists>msg. ensureValidToken env (Some td) = ([], Inl (Err AuthenticationError msg []))))"
  by (simp add: ensureValidToken_def)

theorem ensureValidToken_spec_witness:
  "(\<not> isTokenExpired demo_env ''fresh'' \<and>
    ensureValidToken demo_env (Some \<lparr> td_access_token = Some ''fresh'', td_refresh_token = Some ''r'' \<rparr>)
      = ([], Inr ''fresh'')) \<and>
   (isTokenExpired demo_env ''stale'' \<and>
    (\<exists>msg. ensureValidToken demo_env (Some \<lparr> td_access_token = Some ''stale'', td_refresh_token = None \<rparr>)
      = ([], Inl (Err AuthenticationError msg []))))"
  using ensureValidToken_spec
          [of "\<lparr> td_access_token = Some ''fresh'', td_refresh_token = Some ''r'' \<rparr>" "''fresh''" demo_env]
        ensureValidToken_spec
          [of "\<lparr> td_access_token = Some ''stale'', td_refresh_token = None \<rparr>" "''stale''" demo_env]
  by (simp add: isTokenExpired_def demo_env_def demo_jwtDecode_def fiveMinutesInMs_def)

text \<open>
  C10. A token-data object without an access token (the object is \<^verbatim>\<open>null\<close>, or the field is
  missing or empty) makes \<open>ensureValidToken\<close> throw an \<open>AuthenticationError\<close> at once: no
  request is sent, and neither the clock, the decoder nor the network is consulted, as the
  outcome is the same in every surrounding.
\<close>

theorem ensureValidToken_no_access_token:
  "\<not> has_access_token tokenData \<Longrightarrow>
   ensureValidToken env tokenData = ([], Inl (Err AuthenticationError ''No access token available'' []))"
  by (cases tokenData) (auto simp: ensureValidToken_def split: option.splits)

theorem ensureValidToken_no_access_token_witness:
  "\<not> has_access_token (Some \<lparr> td_access_token = Some [], td_refresh_token = Some ''r'' \<rparr>) \<and>
   ensureValidToken demo_env (Some \<lparr> td_access_token = Some [], td_refresh_token = Some ''r'' \<rparr>)
     = ([], Inl (Err AuthenticationError ''No access token available'' []))"
  using ensureValidToken_no_access_token
          [of "Some \<lparr> td_access_token = Some [], td_refresh_token = Some ''r'' \<rparr>" demo_env]
  by simp

section \<open>Properties of the transcode poll loop\<close>

text \<open>When a poll ends the wait, and when it lets the loop go on.\<close>

lemma poll_step_Done_iff:
  "poll_step f = Done tc \<longleftrightarrow>
     (\<exists>r. f = Resolves r \<and> ok r \<and> json_result r = Inr (Some tc) \<and> truthy (transcodedSha256 tc))"
  by (auto simp: poll_step_def split: fetched.splits sum.splits option.splits if_splits)

lemma poll_step_Continue_iff:
  "poll_step f = Continue \<longleftrightarrow>
     (\<exists>r. f = Resolves r \<and>
          (\<not> ok r \<or> (\<exists>tc. json_result r = Inr (Some tc) \<and> \<not> truthy (transcodedSha256 tc))))"
  by (auto simp: poll_step_def split: fetched.splits sum.splits option.splits if_splits)



lemma waitLoop_done:
  "a \<le> k \<Longrightarrow> k < maxAttempts \<Longrightarrow> (\<And>i. a \<le> i \<Longrightarrow> i < k \<Longrightarrow> poll_step (poll i) = Continue) \<Longrightarrow>
   poll_step (poll k) = Done tc \<Longrightarrow>
   waitLoop poll a = (concat (replicate (k - a) [Poll, Sleep 500]) @ [Poll], Inr (Some tc, k))"
proof (induction "k - a" arbitrary: a)
  case 0
  then have "a = k" by simp
  with 0 show ?case by (simp add: waitLoop.simps [of poll k])
next
  case (Suc n)
  then have lt: "a < k" and step: "poll_step (poll a) = Continue" by auto
  have "waitLoop poll (Suc a) =
      (concat (replicate (k - Suc a) [Poll, Sleep 500]) @ [Poll], Inr (Some tc, k))"
    using Suc.hyps(1) [of "Suc a"] Suc.hyps(2) Suc.prems lt by auto
  moreover have "k - a = Suc (k - Suc a)" using lt by simp
  ultimately show ?case using lt step Suc.prems(2) by (simp add: waitLoop.simps [of poll a])
qed

lemma waitLoop_timeout:
  "a \<le> maxAttempts \<Longrightarrow> (\<And>i. a \<le> i \<Longrightarrow> i < maxAttempts \<Longrightarrow> poll_step (poll i) = Continue) \<Longrightarrow>
   waitLoop poll a = (concat (replicate (maxAttempts - a) [Poll, Sleep 500]), Inr (None, maxAttempts))"
proof (induction "maxAttempts - a" arbitrary: a)
  case 0
  then have "a = maxAttempts" by simp
  then show ?case by (simp add: waitLoop.simps [of poll maxAttempts])
next
  case (Suc n)
  then have lt: "a < maxAttempts" and step: "poll_step (poll a) = Continue" by auto
  have "waitLoop poll (Suc a) =
      (concat (replicate (maxAttempts - Suc a) [Poll, Sleep 500]), Inr (None, maxAttempts))"
    using Suc.hyps(1) [of "Suc a"] Suc.hyps(2) Suc.prems lt by auto
  moreover have "maxAttempts - a = Suc (maxAttempts - Suc a)" using lt by simp
  ultimately show ?case using lt step by (simp add: waitLoop.simps [of poll a])
qed


lemma demo_poll_steps:
  "poll_step (demo_poll 0) = Continue" "poll_step (demo_poll 1) = Continue"
  "poll_step (demo_poll 2) = Done demo_transcode" "poll_step pending = Continue"
  by (simp_all add: demo_poll_def pending_def ready_def poll_step_def ok_def demo_transcode_def)


text \<open>What \<open>uploadAudioToYoto\<close> returns after the timeout.\<close>

lemma uploadAudioToYoto_timeout:
  assumes "w_uploadUrl w = Resolves r1" "ok r1" "json_result r1 = Inr (Some slot)" "truthy (uploadUrl slot)"
      and "w_put w = Resolves r2" "ok r2"
      and "\<And>i. i < 60 \<Longrightarrow> poll_step (w_poll w i) = Continue"
  shows "uploadAudioToYoto w b t =
           \<lparr> au_success = False, au_transcodedAudio = None,
             au_error = Some ''Yoto API: Transcoding timed out after 30 seconds'' \<rparr>"
proof -
  have "waitLoop (w_poll w) 0 = (concat (replicate (maxAttempts - 0) [Poll, Sleep 500]), Inr (None, maxAttempts))"
    by (rule waitLoop_timeout) (simp_all add: assms(7) maxAttempts_def)
  then show ?thesis using assms(1-6)
    by (simp add: uploadAudioToYoto_def uploadAudio_body_def waitForTranscoding_def newYotoAPIError_def)
qed

section \<open>Properties of the card writes: aggregate media\<close>

lemma all_tracks_append: "all_tracks (xs @ ys) = all_tracks xs @ all_tracks ys"
  by (simp add: all_tracks_def)

lemma all_tracks_clean:
  "map f (all_tracks (map clean_chapter chs)) = map f (all_tracks chs)" if "\<And>t. f (clean_track t) = f t"
  using that by (induction chs) (auto simp: all_tracks_def clean_chapter_def split: option.splits)

lemma total_duration_clean: "total_duration (map clean_chapter chs) = total_duration chs"
  unfolding total_duration_def
  by (subst all_tracks_clean) (simp_all add: clean_track_def)

lemma total_fileSize_clean: "total_fileSize (map clean_chapter chs) = total_fileSize chs"
  unfolding total_fileSize_def
  by (subst all_tracks_clean) (simp_all add: clean_track_def)

lemma new_chapter_tracks:
  "all_tracks [createChapterFromStory m ta n] =
     [the (map_option hd (ch_tracks (createChapterFromStory m ta n)))]"
  by (simp add: all_tracks_def createChapterFromStory_def Let_def)

lemma new_chapter_duration:
  "total_duration [createChapterFromStory m ta n] = or_zero (Option.bind (transcodedInfo ta) mi_duration)"
  by (simp add: total_duration_def all_tracks_def createChapterFromStory_def Let_def)

lemma new_chapter_fileSize:
  "total_fileSize [createChapterFromStory m ta n] = or_zero (Option.bind (transcodedInfo ta) mi_fileSize)"
  by (simp add: total_fileSize_def all_tracks_def createChapterFromStory_def Let_def)

lemma total_duration_append: "total_duration (xs @ ys) = total_duration xs + total_duration ys"
  by (simp add: total_duration_def all_tracks_append)

lemma total_fileSize_append: "total_fileSize (xs @ ys) = total_fileSize xs + total_fileSize ys"
  by (simp add: total_fileSize_def all_tracks_append)

text \<open>What the update sends: the stored aggregate plus the new story's figures.\<close>

lemma update_payload_aggregate:
  "up_duration (update_payload_of fc m ta) =
     or_zero (Option.bind (Option.bind (cd_metadata fc) cm_media) md_duration)
       + or_zero (Option.bind (transcodedInfo ta) mi_duration)"
  "up_fileSize (update_payload_of fc m ta) =
     or_zero (Option.bind (Option.bind (cd_metadata fc) cm_media) md_fileSize)
       + or_zero (Option.bind (transcodedInfo ta) mi_fileSize)"
  by (simp_all add: update_payload_of_def Let_def)

text \<open>The sum over the chapters that are written.\<close>

lemma update_payload_totals:
  "total_duration (up_chapters (update_payload_of fc m ta)) =
     total_duration (existing_chapters fc) + or_zero (Option.bind (transcodedInfo ta) mi_duration)"
  "total_fileSize (up_chapters (update_payload_of fc m ta)) =
     total_fileSize (existing_chapters fc) + or_zero (Option.bind (transcodedInfo ta) mi_fileSize)"
  by (simp_all add: update_payload_of_def Let_def total_duration_append total_fileSize_append
        total_duration_clean total_fileSize_clean new_chapter_duration new_chapter_fileSize)

lemma createHeroCard_sent:
  "snd (createHeroCard w m (Some ta) t) = [create_content m ta]"
  by (simp add: createHeroCard_def Let_def split: fetched.splits sum.splits)

text \<open>The aggregate of a created card is the figure of its single track.\<close>

lemma create_content_aggregate:
  "cp_duration (create_content m ta) = Some d \<Longrightarrow> total_duration (cp_chapters (create_content m ta)) = d"
  "cp_fileSize (create_content m ta) = Some f \<Longrightarrow> total_fileSize (cp_chapters (create_content m ta)) = f"
  by (simp_all add: create_content_def Let_def new_chapter_duration new_chapter_fileSize or_zero_def)

lemma resolve_has_chapters: "has_chapters c \<Longrightarrow> resolve_full_card w c = Inr c"
  by (simp add: resolve_full_card_def)

lemma updateHeroCard_sent:
  "resolve_full_card w c = Inr fc \<Longrightarrow>
   snd (updateHeroCard w c m (Some ta) t) = [update_payload_of fc m ta]"
  by (simp add: updateHeroCard_def Let_def split: fetched.splits sum.splits)

lemma demo_card_chapters:
  "has_chapters (demo_card chs md)" "existing_chapters (demo_card chs md) = chs"
  "cd_metadata (demo_card chs md) = md"
  by (simp_all add: demo_card_def has_chapters_def existing_chapters_def)

lemma old_chapter_totals:
  "total_duration (old_chapter k d f # chs) = d + total_duration chs"
  "total_fileSize (old_chapter k d f # chs) = f + total_fileSize chs"
  "total_duration [] = 0" "total_fileSize [] = 0"
  by (simp_all add: total_duration_def total_fileSize_def all_tracks_def old_chapter_def or_zero_def)

text \<open>
  C1. On creation the aggregate is the figure of the single track (\<open>create_content_aggregate\<close>).
  On update the aggregate sent is the aggregate stored on the card read from the platform
  plus the new story's figures (\<open>update_payload_aggregate\<close>), whatever the chapters' tracks
  add up to (\<open>update_payload_totals\<close>). For a card with one chapter of duration 100 and size
  1000 whose stored aggregate is missing, and a new story of duration 50 and size 500, the
  update sends duration 50 and size 500 while the tracks written add up to 150 and 1500.
\<close>

theorem updateHeroCard_aggregate_from_stored_value:
  "map (\<lambda>p. (up_duration p, total_duration (up_chapters p), up_fileSize p, total_fileSize (up_chapters p)))
     (snd (updateHeroCard demo_world demo_card_stale demo_meta (Some demo_transcode) ''token''))
   = [(50, 150, 500, 1500)]"
proof -
  have "resolve_full_card demo_world demo_card_stale = Inr demo_card_stale"
    by (simp add: resolve_has_chapters demo_card_stale_def demo_card_chapters)
  then have "snd (updateHeroCard demo_world demo_card_stale demo_meta (Some demo_transcode) ''token'')
      = [update_payload_of demo_card_stale demo_meta demo_transcode]"
    by (rule updateHeroCard_sent)
  moreover have "transcodedInfo demo_transcode =
      Some \<lparr> mi_duration = Some 50, mi_fileSize = Some 500,
             mi_channels = Some ''stereo'', mi_format = Some ''aac'' \<rparr>"
    by (simp add: demo_transcode_def)
  ultimately show ?thesis
    by (simp add: update_payload_aggregate update_payload_totals demo_card_stale_def
          demo_card_chapters old_chapter_totals or_zero_def)
qed

section \<open>Properties of the card writes: chapter keys\<close>

text \<open>Title case and chapter keys on examples.\<close>

lemma toTitleCase_demo:
  "toTitleCase ''space pirates'' = ''Space Pirates''"
  by (simp add: is_word_def is_space_def toUpperCase_char_def toLowerCase_char_def
        lower_letters_def upper_letters_def)

lemma createChapterFromStory_demo:
  "ch_key (createChapterFromStory demo_meta demo_transcode 12) = Some ''12'' \<and>
   ch_key (createChapterFromStory demo_meta demo_transcode 3) = Some ''03'' \<and>
   ch_overlayLabel (createChapterFromStory demo_meta demo_transcode 3) = Some ''3'' \<and>
   map tr_trackUrl (all_tracks [createChapterFromStory demo_meta demo_transcode 3]) = [Some ''yoto:#abc'']"
  by (simp add: createChapterFromStory_def Let_def toString.simps digit_char_def padStart2_def
        all_tracks_def demo_transcode_def)

lemma update_payload_keys:
  "map ch_key (up_chapters (update_payload_of fc m ta)) =
     map ch_key (existing_chapters fc) @ [Some (padStart2 (toString (length (existing_chapters fc) + 1)))]"
  by (simp add: update_payload_of_def Let_def clean_chapter_def createChapterFromStory_def comp_def)

lemma contiguous_keys_Suc:
  "contiguous_keys (Suc n) = contiguous_keys n @ [Some (padStart2 (toString (Suc n)))]"
  by (simp add: contiguous_keys_def)

lemma updateHeroCard_success_sent:
  assumes "updateHeroCard w c m ta t = (res, sent)" "success res"
  shows "\<exists>fc tc. resolve_full_card w c = Inr fc \<and> ta = Some tc \<and> sent = [update_payload_of fc m tc]"
  using assms
  by (auto simp: updateHeroCard_def update_failed_def Let_def
        split: sum.splits option.splits fetched.splits if_splits)

text \<open>
  C2, as amended. A successful \<open>updateHeroCard\<close> on a card with \<open>N\<close> chapters posts one
  document with \<open>N + 1\<close> chapters. The first \<open>N\<close> chapters keep the keys they had on the
  card that was read; the new chapter gets the key \<open>N + 1\<close>, zero-padded to two digits. So
  the keys written are \<^verbatim>\<open>01\<close> .. \<open>N + 1\<close> whenever the keys read were \<^verbatim>\<open>01\<close> .. \<open>N\<close>.
\<close>

theorem updateHeroCard_chapter_keys:
  assumes "resolve_full_card w c = Inr fc"
      and "updateHeroCard w c m (Some ta) t = (res, sent)"
      and "success res"
  shows "\<exists>p. sent = [p] \<and>
           length (up_chapters p) = length (existing_chapters fc) + 1 \<and>
           map ch_key (up_chapters p) =
             map ch_key (existing_chapters fc)
               @ [Some (padStart2 (toString (length (existing_chapters fc) + 1)))] \<and>
           (map ch_key (existing_chapters fc) = contiguous_keys (length (existing_chapters fc))
              \<longrightarrow> map ch_key (up_chapters p) = contiguous_keys (length (existing_chapters fc) + 1))"
proof -
  from updateHeroCard_success_sent [OF assms(2,3)] assms(1)
  have sent: "sent = [update_payload_of fc m ta]" by auto
  have len: "length (up_chapters (update_payload_of fc m ta)) = length (existing_chapters fc) + 1"
    by (simp add: update_payload_of_def Let_def)
  show ?thesis
    using sent len update_payload_keys [of fc m ta]
    by (simp add: contiguous_keys_Suc)
qed

lemma key_small:
  "padStart2 (toString (Suc 0)) = ''01''" "padStart2 (toString (Suc (Suc 0))) = ''02''"
  "padStart2 (toString 2) = ''02''"
  by (simp_all add: toString.simps digit_char_def padStart2_def)

lemma contiguous_small:
  "contiguous_keys 0 = []" "contiguous_keys 1 = [Some ''01'']"
  "contiguous_keys 2 = [Some ''01'', Some ''02'']"
proof -
  show z: "contiguous_keys 0 = []" by (simp add: contiguous_keys_def)
  show o: "contiguous_keys 1 = [Some ''01'']" using z by (simp add: contiguous_keys_Suc key_small)
  show "contiguous_keys 2 = [Some ''01'', Some ''02'']"
    using o by (simp add: numeral_2_eq_2 contiguous_keys_Suc key_small)
qed

lemma demo_update_ok:
  "updateHeroCard demo_world (demo_card chs md) m (Some ta) t =
     (\<lparr> success = True, cardId = Some ''card1'', error = None, transcodeInfo = Some ta \<rparr>,
      [update_payload_of (demo_card chs md) m ta])"
  by (simp add: updateHeroCard_def resolve_has_chapters demo_card_chapters demo_world_def ok_def
        demo_write_result_def or_else_def Let_def)

text \<open>
  C2 as stated fails: for a card whose only chapter has the key \<^verbatim>\<open>05\<close> the update succeeds
  and writes the keys \<^verbatim>\<open>05\<close>, \<^verbatim>\<open>02\<close>, not \<^verbatim>\<open>01\<close>, \<^verbatim>\<open>02\<close>.
\<close>

theorem updateHeroCard_keys_counterexample:
  "success (fst (updateHeroCard demo_world demo_card_key05 demo_meta (Some demo_transcode) ''token'')) \<and>
   map (\<lambda>p. map ch_key (up_chapters p))
     (snd (updateHeroCard demo_world demo_card_key05 demo_meta (Some demo_transcode) ''token''))
     = [[Some ''05'', Some ''02'']] \<and>
   contiguous_keys 2 = [Some ''01'', Some ''02'']"
  by (simp add: demo_card_key05_def demo_update_ok update_payload_keys demo_card_chapters
        old_chapter_def key_small contiguous_small)

text \<open>The amended C2 on a card whose only chapter has the key \<^verbatim>\<open>01\<close>.\<close>

theorem updateHeroCard_chapter_keys_witness:
  "resolve_full_card demo_world (demo_card [old_chapter ''01'' 100 1000] None)
     = Inr (demo_card [old_chapter ''01'' 100 1000] None) \<and>
   success (fst (updateHeroCard demo_world (demo_card [old_chapter ''01'' 100 1000] None) demo_meta
                  (Some demo_transcode) ''token'')) \<and>
   map ch_key (existing_chapters (demo_card [old_chapter ''01'' 100 1000] None)) = contiguous_keys 1 \<and>
   map (\<lambda>p. map ch_key (up_chapters p))
     (snd (updateHeroCard demo_world (demo_card [old_chapter ''01'' 100 1000] None) demo_meta
            (Some demo_transcode) ''token'')) = [contiguous_keys 2] \<and>
   contiguous_keys 2 = [Some ''01'', Some ''02'']"
proof -
  let ?c = "demo_card [old_chapter ''01'' 100 1000] None"
  let ?res = "\<lparr> success = True, cardId = Some ''card1'', error = None, transcodeInfo = Some demo_transcode \<rparr>"
  have r: "resolve_full_card demo_world ?c = Inr ?c"
    by (simp add: resolve_has_chapters demo_card_chapters)
  have u: "updateHeroCard demo_world ?c demo_meta (Some demo_transcode) ''token'' =
      (?res, [update_payload_of ?c demo_meta demo_transcode])"
    by (rule demo_update_ok)
  have n: "length (existing_chapters ?c) = 1"
    by (simp add: demo_card_chapters)
  have k: "map ch_key (existing_chapters ?c) = contiguous_keys 1"
    by (simp add: demo_card_chapters old_chapter_def contiguous_small del: One_nat_def)
  have s: "success ?res" by simp
  from updateHeroCard_chapter_keys [OF r u s] n k
  have "map ch_key (up_chapters (update_payload_of ?c demo_meta demo_transcode)) = contiguous_keys 2"
    by (auto simp del: One_nat_def)
  with r k show ?thesis
    by (simp add: u contiguous_small del: One_nat_def)
qed

section \<open>Properties of the card writes: a rejected update\<close>

text \<open>
  C3, as amended. When the write of an update is answered with a status outside 200-299,
  \<open>updateHeroCard\<close> returns the failure result whose error is "Failed to update card: "
  followed by the text of the answer; nothing else is in the result.
\<close>

theorem updateHeroCard_write_rejected:
  assumes "resolve_full_card w c = Inr fc"
      and "w_update w = Resolves r" and "\<not> ok r" and "text_result r = Inr errorText"
  shows "updateHeroCard w c m (Some ta) t =
           (\<lparr> success = False, cardId = None,
              error = Some (''Failed to update card: '' @ errorText), transcodeInfo = None \<rparr>,
            [update_payload_of fc m ta])"
  using assms by (simp add: updateHeroCard_def update_failed_def Let_def)

lemma demo_rejecting_facts:
  "resolve_full_card demo_world_rejecting (demo_card chs md) = Inr (demo_card chs md)"
  "w_update demo_world_rejecting = Resolves (Response 500 (Inr ''boom'') json_rejects)"
  "\<not> ok (Response 500 (Inr ''boom'') json_rejects)"
  "text_result (Response 500 (Inr ''boom'') json_rejects) = Inr ''boom''"
  by (simp_all add: resolve_has_chapters demo_card_chapters demo_world_rejecting_def
        demo_world_def server_error_def ok_def)

text \<open>The amended C3 on a card with three chapters and the answer 500 "boom".\<close>

theorem updateHeroCard_write_rejected_witness:
  "resolve_full_card demo_world_rejecting demo_card3 = Inr demo_card3 \<and>
   w_update demo_world_rejecting = Resolves (Response 500 (Inr ''boom'') json_rejects) \<and>
   \<not> ok (Response 500 (Inr ''boom'') (json_rejects :: thrown + write_result)) \<and>
   updateHeroCard demo_world_rejecting demo_card3 demo_meta (Some demo_transcode) ''token'' =
     (\<lparr> success = False, cardId = None,
        error = Some ''Failed to update card: boom'', transcodeInfo = None \<rparr>,
      [update_payload_of demo_card3 demo_meta demo_transcode])"
  using updateHeroCard_write_rejected
          [of demo_world_rejecting demo_card3 demo_card3 "Response 500 (Inr ''boom'') json_rejects"
              "''boom''" demo_meta demo_transcode "''token''"]
        demo_rejecting_facts
  by (simp add: demo_card3_def ok_def)

text \<open>
  C3 as stated fails: two rejected updates that would have written 2 and 4 chapters give
  the same failure result, "Failed to update card: boom", which names no number of chapters.
\<close>

theorem updateHeroCard_failure_counterexample:
  "fst (updateHeroCard demo_world_rejecting demo_card_key05 demo_meta (Some demo_transcode) ''token'')
     = \<lparr> success = False, cardId = None,
         error = Some ''Failed to update card: boom'', transcodeInfo = None \<rparr> \<and>
   fst (updateHeroCard demo_world_rejecting demo_card3 demo_meta (Some demo_transcode) ''token'')
     = \<lparr> success = False, cardId = None,
         error = Some ''Failed to update card: boom'', transcodeInfo = None \<rparr> \<and>
   map (\<lambda>p. length (up_chapters p))
     (snd (updateHeroCard demo_world_rejecting demo_card_key05 demo_meta (Some demo_transcode) ''token'')) = [2] \<and>
   map (\<lambda>p. length (up_chapters p))
     (snd (updateHeroCard demo_world_rejecting demo_card3 demo_meta (Some demo_transcode) ''token'')) = [4]"
proof -
  have a: "updateHeroCard demo_world_rejecting (demo_card chs md) demo_meta (Some demo_transcode) ''token'' =
     (\<lparr> success = False, cardId = None,
        error = Some ''Failed to update card: boom'', transcodeInfo = None \<rparr>,
      [update_payload_of (demo_card chs md) demo_meta demo_transcode])" for chs md
    by (simp add: updateHeroCard_def update_failed_def Let_def demo_rejecting_facts)
  have len: "length (up_chapters (update_payload_of fc m ta)) = length (existing_chapters fc) + 1" for fc m ta
    by (simp add: update_payload_of_def Let_def)
  show ?thesis
    by (simp add: demo_card_key05_def demo_card3_def a len demo_card_chapters)
qed

section \<open>Properties of the card lookup\<close>

lemma ok_status: "ok (Response 200 a b)" "\<not> ok (Response 500 a b)" "\<not> ok (Response 401 a b)"
  by (simp_all add: ok_def)

text \<open>
  C4, as amended. \<open>getHeroCard\<close> returns \<^verbatim>\<open>null\<close> when the content-list request is rejected
  or answered outside 200-299, when the list cannot be parsed, and when the request for the
  selected card's details is rejected or its answer cannot be parsed. When the details
  request is answered outside 200-299, it returns the selected card of the list instead.
\<close>

theorem getHeroCard_failures:
  "((\<exists>e. w_contentMine w = Rejects e) \<longrightarrow> getHeroCard w t = None) \<and>
   ((\<exists>r. w_contentMine w = Resolves r \<and> \<not> ok r) \<longrightarrow> getHeroCard w t = None) \<and>
   ((\<exists>r e. w_contentMine w = Resolves r \<and> ok r \<and> json_result r = Inl e) \<longrightarrow> getHeroCard w t = None) \<and>
   (w_contentMine w = Resolves r \<and> ok r \<and> json_result r = Inr d \<and> hero_cards d \<noteq> [] \<longrightarrow>
      ((\<exists>e. w_cardDetail w = Rejects e) \<longrightarrow> getHeroCard w t = None) \<and>
      ((\<exists>fr e. w_cardDetail w = Resolves fr \<and> ok fr \<and> json_result fr = Inl e) \<longrightarrow> getHeroCard w t = None) \<and>
      ((\<exists>fr. w_cardDetail w = Resolves fr \<and> \<not> ok fr) \<longrightarrow>
         getHeroCard w t =
           Some (ensure_id (mostRecent (hero_cards d))
                  (or_else (cd_cardId (mostRecent (hero_cards d))) (cd_id (mostRecent (hero_cards d)))))))"
  by (auto simp: getHeroCard_def Let_def)

lemma demo_mine_facts:
  "w_contentMine (with_detail f) = Resolves demo_mine" "ok demo_mine"
  "json_result demo_mine = Inr \<lparr> cards = Some [demo_summary] \<rparr>"
  "hero_cards \<lparr> cards = Some [demo_summary] \<rparr> = [demo_summary]"
  "w_cardDetail (with_detail f) = f" "w_contentMine (with_mine g) = g"
  "mostRecent [demo_summary] = demo_summary"
  "ensure_id demo_summary (or_else (cd_cardId demo_summary) (cd_id demo_summary)) = demo_summary"
  by (simp_all add: with_detail_def with_mine_def demo_world_def demo_mine_def ok_status hero_cards_def
        demo_summary_def mostRecent_def ensure_id_def or_else_def)

text \<open>
  C4 as stated fails: when the details request is answered with status 500, the card of
  the list is returned, not \<^verbatim>\<open>null\<close>.
\<close>

theorem getHeroCard_detail_failure_counterexample:
  "w_cardDetail (with_detail (server_error ''oops'')) = Resolves (Response 500 (Inr ''oops'') json_rejects) \<and>
   getHeroCard (with_detail (server_error ''oops'')) ''token'' = Some demo_summary"
  by (simp add: getHeroCard_def Let_def demo_mine_facts server_error_def ok_status)

text \<open>The amended C4 on each of the six failures.\<close>

theorem getHeroCard_failures_witness:
  "getHeroCard (with_mine network_down) ''token'' = None \<and>
   getHeroCard (with_mine (server_error ''oops'')) ''token'' = None \<and>
   getHeroCard (with_mine (Resolves (Response 200 (Inr []) json_rejects))) ''token'' = None \<and>
   hero_cards \<lparr> cards = Some [demo_summary] \<rparr> \<noteq> [] \<and>
   getHeroCard (with_detail network_down) ''token'' = None \<and>
   getHeroCard (with_detail (Resolves (Response 200 (Inr []) json_rejects))) ''token'' = None \<and>
   getHeroCard (with_detail (server_error ''oops'')) ''token'' = Some demo_summary"
  using getHeroCard_failures [of "with_mine network_down" "''token''" demo_mine "\<lparr> cards = Some [demo_summary] \<rparr>"]
        getHeroCard_failures [of "with_mine (server_error ''oops'')" "''token''"
                                 demo_mine "\<lparr> cards = Some [demo_summary] \<rparr>"]
        getHeroCard_failures [of "with_mine (Resolves (Response 200 (Inr []) json_rejects))" "''token''"
                                 demo_mine "\<lparr> cards = Some [demo_summary] \<rparr>"]
        getHeroCard_failures [of "with_detail network_down" "''token''" demo_mine "\<lparr> cards = Some [demo_summary] \<rparr>"]
        getHeroCard_failures [of "with_detail (Resolves (Response 200 (Inr []) json_rejects))" "''token''"
                                 demo_mine "\<lparr> cards = Some [demo_summary] \<rparr>"]
        getHeroCard_failures [of "with_detail (server_error ''oops'')" "''token''"
                                 demo_mine "\<lparr> cards = Some [demo_summary] \<rparr>"]
  by (simp add: demo_mine_facts network_down_def server_error_def json_rejects_def ok_status)

section \<open>Properties of the authorization-code exchange\<close>

lemma exchange_retry:
  "fetch env 0 (exchange_request1 c code v u) = Resolves r1 \<Longrightarrow> status r1 = 401 \<Longrightarrow>
   fst (exchangeCodeForTokens env c code v u) = [exchange_request1 c code v u, exchange_request2 env c code v u]"
  by (simp add: exchangeCodeForTokens_def Let_def ok_def split: fetched.splits)

lemma exchange_no_retry:
  "fetch env 0 (exchange_request1 c code v u) = Resolves r1 \<Longrightarrow> status r1 \<noteq> 401 \<Longrightarrow>
   exchangeCodeForTokens env c code v u = ([exchange_request1 c code v u], exchange_finish env r1)"
  by (simp add: exchangeCodeForTokens_def Let_def)

lemma exchange_request2_basic:
  "map_of (req_headers (exchange_request2 env c code v u)) ''Authorization'' =
     Some (''Basic '' @ base64 env (c @ '':'' @
             (case YOTO_CLIENT_SECRET env of None \<Rightarrow> [] | Some s \<Rightarrow> s)))"
  "map_of (req_body (exchange_request2 env c code v u)) ''client_id'' = None"
  by (cases "YOTO_CLIENT_SECRET env"; simp add: exchange_request2_def)+

lemma exchange_finish_message:
  "\<not> ok r \<Longrightarrow> text_result r = Inr errorText \<Longrightarrow> parse_error_body env errorText = ParsedObj cd ds \<Longrightarrow>
   exchange_finish env r =
     Inl (Err PlainError (''Token exchange failed: '' @ or_unknown cd @
            (case ds of None \<Rightarrow> [] | Some s \<Rightarrow> if s = [] then [] else '' - '' @ s)) [])"
  by (simp add: exchange_finish_def)

lemma refresh_failure_class:
  "fetch env 0 (refresh_request rt c) = Resolves r \<Longrightarrow> \<not> ok r \<Longrightarrow> text_result r = Inr errorText \<Longrightarrow>
   parse_error_body env errorText = ParsedObj cd ds \<Longrightarrow>
   snd (refreshAccessToken env rt c) = Inl (Err AuthenticationError (''Token refresh failed: '' @ or_unknown cd) [])"
  by (simp add: refreshAccessToken_def Let_def)

text \<open>
  C5. After a 401 on the first request, exactly one more request is made, with a Basic
  \<^verbatim>\<open>Authorization\<close> header and no \<^verbatim>\<open>client_id\<close> in the body (\<open>exchange_retry\<close>,
  \<open>exchange_request2_basic\<close>), and the failure carries the upstream code and description
  in its message (\<open>exchange_finish_message\<close>). The error thrown is a plain \<^verbatim>\<open>Error\<close>, though,
  where the refresh grant throws an \<open>AuthenticationError\<close> (\<open>refresh_failure_class\<close>): with
  401 "invalid_client" answered twice, the outcome is the following.
\<close>

theorem exchangeCodeForTokens_throws_plain_error:
  "exchangeCodeForTokens demo_env_401 ''client'' ''code'' ''verifier'' ''https://app/callback'' =
     ([exchange_request1 ''client'' ''code'' ''verifier'' ''https://app/callback'',
       exchange_request2 demo_env_401 ''client'' ''code'' ''verifier'' ''https://app/callback''],
      Inl (Err PlainError ''Token exchange failed: invalid_client - Invalid client'' []))"
  by (simp add: exchangeCodeForTokens_def Let_def demo_env_401_def demo_env_def ok_status
        exchange_finish_def parse_error_body_def or_unknown_def)

section \<open>Properties of the workflow\<close>


lemma update_failed_failure: "\<exists>msg. update_failed e = failure msg"
  by (simp add: update_failed_def failure_def)

lemma create_failed_failure: "\<exists>msg. create_failed e = failure msg"
  by (simp add: create_failed_def failure_def)

text \<open>The two outcomes of the writes.\<close>

lemma updateHeroCard_ok:
  "resolve_full_card w c = Inr fc \<Longrightarrow> w_update w = Resolves resp \<Longrightarrow> ok resp \<Longrightarrow>
   json_result resp = Inr wr \<Longrightarrow>
   fst (updateHeroCard w c m (Some ta) t) =
     \<lparr> success = True, cardId = or_else (wr_cardId wr) (wr_id wr), error = None, transcodeInfo = Some ta \<rparr>"
  by (simp add: updateHeroCard_def Let_def)

lemma updateHeroCard_not_ok:
  "\<not> (\<exists>fc tc resp wr. resolve_full_card w c = Inr fc \<and> ta = Some tc \<and> w_update w = Resolves resp \<and>
         ok resp \<and> json_result resp = Inr wr) \<Longrightarrow>
   \<exists>msg. fst (updateHeroCard w c m ta t) = failure msg"
  using update_failed_failure
  by (auto simp: updateHeroCard_def Let_def split: sum.splits option.splits fetched.splits)

lemma createHeroCard_ok:
  "w_create w = Resolves resp \<Longrightarrow> ok resp \<Longrightarrow> json_result resp = Inr wr \<Longrightarrow>
   fst (createHeroCard w m (Some ta) t) =
     \<lparr> success = True, cardId = or_else (wr_cardId wr) (or_else (wr_card_cardId wr) (wr_id wr)),
       error = None, transcodeInfo = Some ta \<rparr>"
  by (simp add: createHeroCard_def Let_def)

lemma createHeroCard_not_ok:
  "\<not> (\<exists>tc resp wr. ta = Some tc \<and> w_create w = Resolves resp \<and> ok resp \<and> json_result resp = Inr wr) \<Longrightarrow>
   \<exists>msg. fst (createHeroCard w m ta t) = failure msg"
  using create_failed_failure
  by (auto simp: createHeroCard_def Let_def split: sum.splits option.splits fetched.splits)

lemma sync_card_ok:
  "write_ok w t resp wr \<Longrightarrow>
   sync_card w m (Some ta) t =
     \<lparr> success = True, cardId = written_id w t wr, error = None, transcodeInfo = Some ta \<rparr>"
  by (auto simp: write_ok_def written_id_def sync_card_def updateHeroCard_ok createHeroCard_ok
        split: option.splits sum.splits)

lemma sync_card_not_ok:
  "\<not> (\<exists>resp wr. write_ok w t resp wr) \<Longrightarrow> \<exists>msg. sync_card w m ta t = failure msg"
proof (cases "getHeroCard w t")
  case None
  assume "\<not> (\<exists>resp wr. write_ok w t resp wr)"
  with None have "\<not> (\<exists>tc resp wr. ta = Some tc \<and> w_create w = Resolves resp \<and> ok resp \<and> json_result resp = Inr wr)"
    by (auto simp: write_ok_def)
  from createHeroCard_not_ok [OF this] None show ?thesis by (simp add: sync_card_def)
next
  case (Some c)
  assume "\<not> (\<exists>resp wr. write_ok w t resp wr)"
  with Some have "\<not> (\<exists>fc tc resp wr. resolve_full_card w c = Inr fc \<and> ta = Some tc \<and>
       w_update w = Resolves resp \<and> ok resp \<and> json_result resp = Inr wr)"
    by (auto simp: write_ok_def)
  from updateHeroCard_not_ok [OF this] Some show ?thesis by (simp add: sync_card_def)
qed

lemma sync_card_cases:
  "(\<exists>msg. sync_card w m (Some ta) t = failure msg \<and> \<not> (\<exists>resp wr. write_ok w t resp wr)) \<or>
   (\<exists>resp wr. write_ok w t resp wr \<and>
      sync_card w m (Some ta) t =
        \<lparr> success = True, cardId = written_id w t wr, error = None, transcodeInfo = Some ta \<rparr>)"
  using sync_card_ok [of w t _ _ m ta] sync_card_not_ok [of w t m "Some ta"] by blast













text \<open>A run in which every collaborator answers well: the card is updated.\<close>

lemma demo_waitLoop:
  "waitLoop demo_poll 0 = ([Poll, Sleep 500, Poll, Sleep 500, Poll], Inr (Some demo_transcode, 2))"
proof -
  have "waitLoop demo_poll 0 =
      (concat (replicate (2 - 0) [Poll, Sleep 500]) @ [Poll], Inr (Some demo_transcode, 2))"
  proof (rule waitLoop_done)
    show "poll_step (demo_poll i) = Continue" if "i < 2" for i
      using that by (simp add: demo_poll_def pending_def poll_step_def ok_def)
  qed (simp_all add: maxAttempts_def demo_poll_steps)
  then show ?thesis by (simp add: numeral_2_eq_2)
qed

lemma demo_run:
  "uploadStoryToYoto demo_world ''Once upon a time'' demo_meta ''token'' =
     Inr \<lparr> success = True, cardId = Some ''card1'', error = None, transcodeInfo = Some demo_transcode \<rparr>"
proof -
  have up: "uploadAudioToYoto demo_world [1, 2, 3] ''token'' =
      \<lparr> au_success = True, au_transcodedAudio = Some demo_transcode, au_error = None \<rparr>"
    by (simp add: uploadAudioToYoto_def uploadAudio_body_def demo_world_def ok_status
          waitForTranscoding_def demo_waitLoop)
  have card: "getHeroCard demo_world ''token'' = Some demo_card_key05"
    by (simp add: getHeroCard_def demo_world_def ok_status hero_cards_def demo_summary_def
          mostRecent_def or_else_def ensure_id_def demo_card_key05_def demo_card_def Let_def)
  have sync: "sync_card demo_world demo_meta (Some demo_transcode) ''token'' =
      \<lparr> success = True, cardId = Some ''card1'', error = None, transcodeInfo = Some demo_transcode \<rparr>"
    by (simp add: sync_card_def card demo_card_key05_def demo_update_ok)
  have cache: "getCachedTranscode demo_world k = None" for k
    by (simp add: getCachedTranscode_def demo_world_def)
  have env: "w_importTts demo_world = Inr ()" "w_getRandomVoiceId demo_world = Inr (Some ''voice1'')"
    "w_generateAudio demo_world s v =
       Inr \<lparr> ar_success = True, ar_audioBuffer = Some [1, 2, 3], ar_error = None \<rparr>" for s v
    by (simp_all add: demo_world_def)
  show ?thesis
    by (simp add: uploadStoryToYoto_def uploadStory_body_def cache Let_def env up sync
          del: One_nat_def)
qed














end
